theory Spec2Isabelle
  imports Main "HOL-Library.AList" "HOL-Library.Sublist"
begin

section \<open>Python values of the image-analysis client\<close>

text \<open>
  The client of \<^verbatim>\<open>app.py\<close> is the class \<^verbatim>\<open>MCPImageAnalyzer\<close>: a URL, a connection
  handle and a status text, with \<^verbatim>\<open>connect\<close> and four analysis methods that forward
  an image to a remote service and normalise what comes back.

  A Python \<^verbatim>\<open>str\<close> is a sequence of code points; the messages of the client carry
  code points beyond ASCII, so a string is a list of code points here.
\<close>

type_synonym pystr = "nat list"

definition lit :: "string \<Rightarrow> pystr" where
  "lit s = map of_char s"

text \<open>The four pictographs used by the messages of the client.\<close>

definition CHECK_MARK :: pystr where "CHECK_MARK = [0x2705]"
definition CROSS_MARK :: pystr where "CROSS_MARK = [0x274C]"
definition TRIANGULAR_RULER :: pystr where "TRIANGULAR_RULER = [0x1F4D0]"
definition ARTIST_PALETTE :: pystr where "ARTIST_PALETTE = [0x1F3A8]"

text \<open>
  The values that travel between the remote service, \<^verbatim>\<open>json.loads\<close> and the caller.
  A dictionary keeps its insertion order; a float is identified by its \<^verbatim>\<open>repr\<close>.
\<close>

datatype pyval =
    PNone
  | PBool bool
  | PInt int
  | PFloat pystr
  | PStr pystr
  | PList "pyval list"
  | PDict "(pystr \<times> pyval) list"

text \<open>
  A raised exception, with the text \<^verbatim>\<open>str(e)\<close>. \<open>Exception\<close> stands for every
  instance of the class \<^verbatim>\<open>Exception\<close>, which \<^verbatim>\<open>except Exception\<close> catches;
  \<open>NonException\<close> for the other instances of \<^verbatim>\<open>BaseException\<close>
  (\<^verbatim>\<open>KeyboardInterrupt\<close>, \<^verbatim>\<open>SystemExit\<close>), which it lets through.
\<close>

datatype pyexn = Exception pystr | NonException pystr

text \<open>\<^verbatim>\<open>try: ... except Exception as e: return h(str(e))\<close>\<close>

fun try_except :: "pyexn + 'a \<Rightarrow> (pystr \<Rightarrow> 'a) \<Rightarrow> pyexn + 'a" where
  "try_except (Inr v) h = Inr v"
| "try_except (Inl (Exception m)) h = Inr (h m)"
| "try_except (Inl (NonException m)) h = Inl (NonException m)"

section \<open>The remote service and the interpreter\<close>

text \<open>
  \<^verbatim>\<open>PIL.Image.Image\<close>: the caller's raster image, which the client only forwards.
\<close>

datatype image =
  Image (mode: pystr) (width: nat) (height: nat) (getpixel: "nat \<times> nat \<Rightarrow> nat \<times> nat \<times> nat")

type_synonym handle = nat

text \<open>
  Every contact with the remote endpoint is recorded: the handshake of
  \<^verbatim>\<open>Client(url)\<close> and each \<^verbatim>\<open>client.predict(image=..., api_name=...)\<close>.
\<close>

datatype request = Handshake pystr | Predict handle image pystr

text \<open>
  What the code calls but does not define. The remote side answers as a function of
  the requests made so far, so the same call may succeed once and fail later.
  \<^item> \<open>Client\<close>: the constructor \<^verbatim>\<open>gradio_client.Client\<close>;
  \<^item> \<open>predict\<close>: the method \<^verbatim>\<open>Client.predict\<close>;
  \<^item> \<open>builtin_float\<close>: \<^verbatim>\<open>float\<close> on a JSON number literal, as the \<^verbatim>\<open>repr\<close> of the result;
  \<^item> \<open>builtin_str\<close>: \<^verbatim>\<open>str\<close> on a value that is not a \<^verbatim>\<open>str\<close>;
  \<^item> \<open>recursion_limit\<close>: how many nested JSON containers the decoder may enter
    before \<^verbatim>\<open>RecursionError\<close>;
  \<^item> \<open>int_max_str_digits\<close>: \<^verbatim>\<open>sys.get_int_max_str_digits()\<close>, 0 for no limit.
\<close>

record env =
  Client :: "pystr \<Rightarrow> request list \<Rightarrow> pyexn + handle"
  predict :: "handle \<Rightarrow> image \<Rightarrow> pystr \<Rightarrow> request list \<Rightarrow> pyexn + pyval"
  builtin_float :: "pystr \<Rightarrow> pystr"
  builtin_str :: "pyval \<Rightarrow> pyexn + pystr"
  recursion_limit :: nat
  int_max_str_digits :: nat

section \<open>The decoder behind \<^verbatim>\<open>json.loads\<close>\<close>

text \<open>
  \<^verbatim>\<open>json.loads\<close> belongs to the standard library (CPython 3.11, with its C scanner).
  The functions below follow \<^verbatim>\<open>json/decoder.py\<close> and \<^verbatim>\<open>json/scanner.py\<close>: the same
  grammar, the same values, the same messages and positions.
\<close>

text \<open>\<^verbatim>\<open>'%d' % n\<close> for a natural number.\<close>

fun dec :: "nat \<Rightarrow> pystr" where
  "dec n = (if n < 10 then [48 + n] else dec (n div 10) @ [48 + n mod 10])"

declare dec.simps [simp del]

text \<open>
  \<^verbatim>\<open>JSONDecodeError(msg, doc, pos)\<close>: the line is one more than the number of newlines
  in \<^verbatim>\<open>doc[:pos]\<close>, the column is \<^verbatim>\<open>pos - doc.rfind('\n', 0, pos)\<close> (and \<^verbatim>\<open>rfind\<close>
  gives -1 when there is none).
\<close>

definition JSONDecodeError :: "pystr \<Rightarrow> pystr \<Rightarrow> nat \<Rightarrow> pyexn" where
  "JSONDecodeError msg doc pos =
     (let pre = take pos doc;
          lineno = count_list pre 10 + 1;
          colno = (if 10 \<in> set pre
                   then pos - (length pre - 1 - length (takeWhile (\<lambda>c. c \<noteq> 10) (rev pre)))
                   else pos + 1)
      in Exception (msg @ lit '': line '' @ dec lineno @ lit '' column '' @ dec colno
                        @ lit '' (char '' @ dec pos @ lit '')''))"

definition RecursionError :: "string \<Rightarrow> pyexn" where
  "RecursionError what =
     Exception (lit ''maximum recursion depth exceeded while decoding a JSON ''
                @ lit what @ lit '' from a unicode string'')"

text \<open>\<^verbatim>\<open>WHITESPACE_STR = ' \t\n\r'\<close>\<close>

definition is_ws :: "nat \<Rightarrow> bool" where
  "is_ws c = (c = 32 \<or> c = 9 \<or> c = 10 \<or> c = 13)"

definition is_digit :: "nat \<Rightarrow> bool" where
  "is_digit c = (48 \<le> c \<and> c \<le> 57)"

definition hex_val :: "nat \<Rightarrow> nat option" where
  "hex_val c =
     (if 48 \<le> c \<and> c \<le> 57 then Some (c - 48)
      else if 97 \<le> c \<and> c \<le> 102 then Some (c - 87)
      else if 65 \<le> c \<and> c \<le> 70 then Some (c - 55)
      else None)"

text \<open>Four hexadecimal digits, as the \<^verbatim>\<open>XXXX\<close> of an escape.\<close>

definition hex4 :: "pystr \<Rightarrow> nat option" where
  "hex4 ds =
     (case map hex_val ds of
        [Some a, Some b, Some c, Some d] \<Rightarrow> Some (((a * 16 + b) * 16 + c) * 16 + d)
      | _ \<Rightarrow> None)"

text \<open>\<^verbatim>\<open>BACKSLASH\<close>: the one-letter escapes.\<close>

definition BACKSLASH :: "nat \<Rightarrow> nat option" where
  "BACKSLASH c =
     (if c = 0x22 then Some 0x22
      else if c = 0x5C then Some 0x5C
      else if c = 0x2F then Some 0x2F
      else if c = 0x62 then Some 8
      else if c = 0x66 then Some 12
      else if c = 0x6E then Some 10
      else if c = 0x72 then Some 13
      else if c = 0x74 then Some 9
      else None)"

text \<open>The two messages with a backslash (code point 92) in them.\<close>

definition INVALID_ESCAPE :: pystr where
  "INVALID_ESCAPE = lit ''Invalid '' @ [0x5C] @ lit ''escape''"

definition INVALID_UXXXX :: pystr where
  "INVALID_UXXXX = lit ''Invalid '' @ [0x5C] @ lit ''uXXXX escape''"

text \<open>
  The decoder walks the document \<open>s\<close> by index. Here it holds the rest \<open>cs\<close> of the
  document, \<^verbatim>\<open>s[idx:]\<close>, and \<open>idx\<close> is what has been left behind.
\<close>

definition pos :: "pystr \<Rightarrow> pystr \<Rightarrow> nat" where
  "pos s cs = length s - length cs"

text \<open>
  \<^verbatim>\<open>scanstring(s, end, strict=True)\<close>: \<open>cs\<close> is \<^verbatim>\<open>s[end:]\<close>, \<open>begin\<close> the index of the
  opening quote, \<open>acc\<close> the characters decoded so far. Returns the string and the index
  after the closing quote. An escape with four hexadecimal digits needs one more
  character after its digits; a high surrogate joins a low one that follows it as an
  escape.
\<close>

function scanstring :: "pystr \<Rightarrow> nat \<Rightarrow> pystr \<Rightarrow> pystr \<Rightarrow> pyexn + pystr \<times> nat" where
  "scanstring s begin acc cs =
     (case cs of
        [] \<Rightarrow> Inl (JSONDecodeError (lit ''Unterminated string starting at'') s begin)
      | c # rest \<Rightarrow>
          if c = 0x22 then Inr (acc, pos s rest)
          else if c \<noteq> 0x5C then
            (if c \<le> 0x1F then
               Inl (JSONDecodeError (lit ''Invalid control character at'') s (pos s cs))
             else scanstring s begin (acc @ [c]) rest)
          else
            (case rest of
               [] \<Rightarrow> Inl (JSONDecodeError (lit ''Unterminated string starting at'') s begin)
             | esc # rest2 \<Rightarrow>
                 if esc \<noteq> 0x75 then
                   (case BACKSLASH esc of
                      None \<Rightarrow> Inl (JSONDecodeError INVALID_ESCAPE s (pos s cs))
                    | Some ch \<Rightarrow> scanstring s begin (acc @ [ch]) rest2)
                 else if length rest2 < 5 then
                   Inl (JSONDecodeError INVALID_UXXXX s (pos s rest))
                 else
                   (case hex4 (take 4 rest2) of
                      None \<Rightarrow> Inl (JSONDecodeError INVALID_UXXXX s (pos s rest))
                    | Some uni \<Rightarrow>
                        if 0xD800 \<le> uni \<and> uni \<le> 0xDBFF \<and> 6 < length (drop 4 rest2)
                           \<and> take 2 (drop 4 rest2) = [0x5C, 0x75] then
                          (case hex4 (take 4 (drop 6 rest2)) of
                             None \<Rightarrow> Inl (JSONDecodeError INVALID_UXXXX s (pos s (drop 5 rest2)))
                           | Some uni2 \<Rightarrow>
                               if 0xDC00 \<le> uni2 \<and> uni2 \<le> 0xDFFF then
                                 scanstring s begin
                                   (acc @ [0x10000 + (uni - 0xD800) * 1024 + (uni2 - 0xDC00)])
                                   (drop 10 rest2)
                               else scanstring s begin (acc @ [uni]) (drop 4 rest2))
                        else scanstring s begin (acc @ [uni]) (drop 4 rest2))))"
  by pat_completeness auto
termination
  by (relation "measure (\<lambda>(s, begin, acc, cs). length cs)") auto

declare scanstring.simps [simp del]

text \<open>
  \<^verbatim>\<open>NUMBER_RE = (-?(?:0|[1-9][0-9]*))(\.[0-9]+)?([eE][-+]?[0-9]+)?\<close>, matched at the
  head of \<open>cs\<close>: the three groups, an absent group being empty.
\<close>

definition match_frac :: "pystr \<Rightarrow> pystr" where
  "match_frac cs =
     (case cs of
        c # d # rest \<Rightarrow> if c = 0x2E \<and> is_digit d then c # d # takeWhile is_digit rest else []
      | _ \<Rightarrow> [])"

definition match_exp :: "pystr \<Rightarrow> pystr" where
  "match_exp cs =
     (case cs of
        [] \<Rightarrow> []
      | e # rest \<Rightarrow>
          if e = 0x65 \<or> e = 0x45 then
            (case rest of
               [] \<Rightarrow> []
             | g # rest2 \<Rightarrow>
                 if g = 0x2D \<or> g = 0x2B then
                   (case rest2 of
                      [] \<Rightarrow> []
                    | d # rest3 \<Rightarrow> if is_digit d then e # g # d # takeWhile is_digit rest3 else [])
                 else if is_digit g then e # g # takeWhile is_digit rest2
                 else [])
          else [])"

definition match_integer :: "pystr \<Rightarrow> pystr" where
  "match_integer cs =
     (let sign = (case cs of [] \<Rightarrow> [] | c # _ \<Rightarrow> if c = 0x2D then [c] else []);
          rest = drop (length sign) cs
      in case rest of
           [] \<Rightarrow> []
         | d # rest2 \<Rightarrow>
             if d = 0x30 then sign @ [d]
             else if is_digit d then sign @ d # takeWhile is_digit rest2
             else [])"

definition match_number :: "pystr \<Rightarrow> (pystr \<times> pystr \<times> pystr) option" where
  "match_number cs =
     (let integer = match_integer cs in
      if integer = [] then None
      else
        let frac = match_frac (drop (length integer) cs);
            exp = match_exp (drop (length integer + length frac) cs)
        in Some (integer, frac, exp))"

text \<open>
  \<^verbatim>\<open>int(integer)\<close> on a matched integer group: more digits than
  \<open>int_max_str_digits\<close> allows raise \<^verbatim>\<open>ValueError\<close>.
\<close>

definition digits_value :: "pystr \<Rightarrow> nat" where
  "digits_value ds = foldl (\<lambda>n c. 10 * n + (c - 48)) 0 ds"

definition builtin_int :: "env \<Rightarrow> pystr \<Rightarrow> pyexn + pyval" where
  "builtin_int E integer =
     (let negative = (take 1 integer = [0x2D]);
          ds = (if negative then drop 1 integer else integer)
      in if 0 < int_max_str_digits E \<and> int_max_str_digits E < length ds then
           Inl (Exception (lit ''Exceeds the limit ('' @ dec (int_max_str_digits E)
                  @ lit '' digits) for integer string conversion: value has ''
                  @ dec (length ds)
                  @ lit '' digits; use sys.set_int_max_str_digits() to increase the limit''))
         else Inr (PInt (if negative then - int (digits_value ds) else int (digits_value ds))))"

text \<open>\<^verbatim>\<open>dict(pairs)\<close>: a later pair replaces the value of an equal key, in its place.\<close>

definition dict :: "(pystr \<times> pyval) list \<Rightarrow> pyval" where
  "dict pairs = PDict (foldl (\<lambda>d (k, v). AList.update k v d) [] pairs)"

text \<open>\<^verbatim>\<open>s[_w(s, end).end():]\<close>: the rest after the whitespace at its head.\<close>

definition skip_ws :: "pystr \<Rightarrow> pystr" where
  "skip_ws cs = dropWhile is_ws cs"

lemma length_skip_ws: "length (skip_ws cs) \<le> length cs"
  by (simp add: skip_ws_def length_dropWhile_le)

lemma skip_ws_Cons_less: "skip_ws cs = c # rest \<Longrightarrow> length rest < length cs"
  using length_skip_ws [of cs] by simp

lemma skip_ws_drop_Cons_less: "skip_ws (drop n cs) = c # rest \<Longrightarrow> length rest < length cs"
  using length_skip_ws [of "drop n cs"] by simp

lemma skip_ws_drop_Cons_skip_less:
  "skip_ws (drop n cs) = c # rest \<Longrightarrow> length (skip_ws rest) < length cs"
  using skip_ws_drop_Cons_less [of n cs c rest] length_skip_ws [of rest] by simp

lemma skip_ws_chain_less:
  assumes "skip_ws (drop n cs) = c # rest"
    and "skip_ws (drop m (skip_ws rest)) = c2 # rest2"
    and "skip_ws rest2 = c3 # rest3"
  shows "length rest3 < length cs"
proof -
  have "length rest3 < length rest2"
    using assms(3) by (rule skip_ws_Cons_less)
  also have "length rest2 < length (skip_ws rest)"
    using assms(2) by (rule skip_ws_drop_Cons_less)
  also have "length (skip_ws rest) < length cs"
    using assms(1) by (rule skip_ws_drop_Cons_skip_less)
  finally show ?thesis .
qed

text \<open>The three messages that name a character between apostrophes (code point 39).\<close>

definition EXPECTING_COMMA :: pystr where
  "EXPECTING_COMMA = lit ''Expecting '' @ [0x27, 0x2C, 0x27] @ lit '' delimiter''"

definition EXPECTING_COLON :: pystr where
  "EXPECTING_COLON = lit ''Expecting '' @ [0x27, 0x3A, 0x27] @ lit '' delimiter''"

definition EXPECTING_NAME :: pystr where
  "EXPECTING_NAME = lit ''Expecting property name enclosed in double quotes''"

text \<open>
  \<^verbatim>\<open>scan_once(s, idx)\<close> with \<^verbatim>\<open>JSONArray\<close> and \<^verbatim>\<open>JSONObject\<close>. \<open>cs\<close> is \<^verbatim>\<open>s[idx:]\<close> and
  \<open>d\<close> the number of containers that may still be entered. The result is the value
  and the index after it. \<^verbatim>\<open>StopIteration(idx)\<close> is written as the
  \<^verbatim>\<open>JSONDecodeError("Expecting value", s, idx)\<close> that every caller turns it into.

  \<open>array_items\<close> is the \<^verbatim>\<open>while True\<close> of \<^verbatim>\<open>JSONArray\<close>, entered at a value;
  \<open>object_items\<close> the one of \<^verbatim>\<open>JSONObject\<close>, entered after the quote that opens a key.
\<close>

function scan_once :: "env \<Rightarrow> nat \<Rightarrow> pystr \<Rightarrow> pystr \<Rightarrow> pyexn + pyval \<times> nat"
  and array_items :: "env \<Rightarrow> nat \<Rightarrow> pystr \<Rightarrow> pyval list \<Rightarrow> pystr \<Rightarrow> pyexn + pyval \<times> nat"
  and object_items ::
    "env \<Rightarrow> nat \<Rightarrow> pystr \<Rightarrow> (pystr \<times> pyval) list \<Rightarrow> pystr \<Rightarrow> pyexn + pyval \<times> nat"
where
  "scan_once E d s cs =
     (case cs of
        [] \<Rightarrow> Inl (JSONDecodeError (lit ''Expecting value'') s (pos s cs))
      | nextchar # rest \<Rightarrow>
          if nextchar = 0x22 then
            (case scanstring s (pos s cs) [] rest of
               Inl e \<Rightarrow> Inl e
             | Inr (str, end) \<Rightarrow> Inr (PStr str, end))
          else if nextchar = 0x7B then
            (case d of
               0 \<Rightarrow> Inl (RecursionError ''object'')
             | Suc d' \<Rightarrow>
                 (case skip_ws rest of
                    [] \<Rightarrow> Inl (JSONDecodeError EXPECTING_NAME s (length s))
                  | c # rest2 \<Rightarrow>
                      if c = 0x7D then Inr (PDict [], pos s rest2)
                      else if c \<noteq> 0x22 then
                        Inl (JSONDecodeError EXPECTING_NAME s (pos s (c # rest2)))
                      else object_items E d' s [] rest2))
          else if nextchar = 0x5B then
            (case d of
               0 \<Rightarrow> Inl (RecursionError ''array'')
             | Suc d' \<Rightarrow>
                 (case skip_ws rest of
                    [] \<Rightarrow> Inl (JSONDecodeError (lit ''Expecting value'') s (length s))
                  | c # rest2 \<Rightarrow>
                      if c = 0x5D then Inr (PList [], pos s rest2)
                      else array_items E d' s [] (c # rest2)))
          else if nextchar = 0x6E \<and> take 4 cs = lit ''null'' then Inr (PNone, pos s cs + 4)
          else if nextchar = 0x74 \<and> take 4 cs = lit ''true'' then Inr (PBool True, pos s cs + 4)
          else if nextchar = 0x66 \<and> take 5 cs = lit ''false'' then
            Inr (PBool False, pos s cs + 5)
          else
            (case match_number cs of
               Some (integer, frac, exp) \<Rightarrow>
                 if frac \<noteq> [] \<or> exp \<noteq> [] then
                   Inr (PFloat (builtin_float E (integer @ frac @ exp)),
                        pos s cs + length integer + length frac + length exp)
                 else
                   (case builtin_int E integer of
                      Inl e \<Rightarrow> Inl e
                    | Inr res \<Rightarrow> Inr (res, pos s cs + length integer))
             | None \<Rightarrow>
                 if nextchar = 0x4E \<and> take 3 cs = lit ''NaN'' then
                   Inr (PFloat (lit ''nan''), pos s cs + 3)
                 else if nextchar = 0x49 \<and> take 8 cs = lit ''Infinity'' then
                   Inr (PFloat (lit ''inf''), pos s cs + 8)
                 else if nextchar = 0x2D \<and> take 9 cs = lit ''-Infinity'' then
                   Inr (PFloat (lit ''-inf''), pos s cs + 9)
                 else Inl (JSONDecodeError (lit ''Expecting value'') s (pos s cs))))"
| "array_items E d s values cs =
     (case scan_once E d s cs of
        Inl e \<Rightarrow> Inl e
      | Inr (val, end) \<Rightarrow>
          (case skip_ws (drop (end - pos s cs) cs) of
             [] \<Rightarrow> Inl (JSONDecodeError EXPECTING_COMMA s (length s))
           | nextchar # rest \<Rightarrow>
               if nextchar = 0x5D then Inr (PList (values @ [val]), pos s rest)
               else if nextchar \<noteq> 0x2C then
                 Inl (JSONDecodeError EXPECTING_COMMA s (pos s (nextchar # rest)))
               else array_items E d s (values @ [val]) (skip_ws rest)))"
| "object_items E d s pairs cs =
     (case scanstring s (pos s cs - 1) [] cs of
        Inl e \<Rightarrow> Inl e
      | Inr (key, end) \<Rightarrow>
          (case skip_ws (drop (end - pos s cs) cs) of
             [] \<Rightarrow> Inl (JSONDecodeError EXPECTING_COLON s (length s))
           | colon # rest \<Rightarrow>
               if colon \<noteq> 0x3A then
                 Inl (JSONDecodeError EXPECTING_COLON s (pos s (colon # rest)))
               else
                 (case scan_once E d s (skip_ws rest) of
                    Inl e \<Rightarrow> Inl e
                  | Inr (val, end2) \<Rightarrow>
                      (case skip_ws (drop (end2 - pos s (skip_ws rest)) (skip_ws rest)) of
                         [] \<Rightarrow> Inl (JSONDecodeError EXPECTING_COMMA s (length s))
                       | nextchar # rest2 \<Rightarrow>
                           if nextchar = 0x7D then Inr (dict (pairs @ [(key, val)]), pos s rest2)
                           else if nextchar \<noteq> 0x2C then
                             Inl (JSONDecodeError EXPECTING_COMMA s (pos s (nextchar # rest2)))
                           else
                             (case skip_ws rest2 of
                                [] \<Rightarrow> Inl (JSONDecodeError EXPECTING_NAME s (length s))
                              | quote # rest3 \<Rightarrow>
                                  if quote \<noteq> 0x22 then
                                    Inl (JSONDecodeError EXPECTING_NAME s (pos s (quote # rest3)))
                                  else object_items E d s (pairs @ [(key, val)]) rest3)))))"
  by pat_completeness auto
termination
  apply (relation "measure (\<lambda>x. case x of
            Inl (E, d, s, cs) \<Rightarrow> 2 * length cs
          | Inr (Inl (E, d, s, values, cs)) \<Rightarrow> 2 * length cs + 1
          | Inr (Inr (E, d, s, pairs, cs)) \<Rightarrow> 2 * length cs + 1)")
  apply (auto dest: skip_ws_Cons_less skip_ws_drop_Cons_less)
  apply (fastforce dest: skip_ws_drop_Cons_skip_less)
  apply (fastforce dest: skip_ws_drop_Cons_skip_less)
  apply (erule (2) skip_ws_chain_less)
  done

declare scan_once.simps [simp del] array_items.simps [simp del] object_items.simps [simp del]

text \<open>
  \<^verbatim>\<open>json.loads(s)\<close> for a \<^verbatim>\<open>str\<close>: no byte order mark at the head, one value between
  whitespace, nothing after it.
\<close>

definition json_loads :: "env \<Rightarrow> pystr \<Rightarrow> pyexn + pyval" where
  "json_loads E s =
     (if take 1 s = [0xFEFF] then
        Inl (JSONDecodeError (lit ''Unexpected UTF-8 BOM (decode using utf-8-sig)'') s 0)
      else
        (case scan_once E (recursion_limit E) s (skip_ws s) of
           Inl e \<Rightarrow> Inl e
         | Inr (obj, end) \<Rightarrow>
             (case skip_ws (drop end s) of
                [] \<Rightarrow> Inr obj
              | c # rest \<Rightarrow> Inl (JSONDecodeError (lit ''Extra data'') s (pos s (c # rest))))))"

subsection \<open>What the decoder raises\<close>

text \<open>
  A result is catchable when it is a value or an exception that \<^verbatim>\<open>except Exception\<close>
  catches. The decoder raises \<^verbatim>\<open>JSONDecodeError\<close>, \<^verbatim>\<open>RecursionError\<close> and
  \<^verbatim>\<open>ValueError\<close>, all of them catchable.
\<close>

definition catchable :: "pyexn + 'a \<Rightarrow> bool" where
  "catchable r = (case r of Inl (NonException m) \<Rightarrow> False | _ \<Rightarrow> True)"

lemma catchable_simps [simp]:
  "catchable (Inr v)" "catchable (Inl (Exception m))" "\<not> catchable (Inl (NonException m))"
  by (simp_all add: catchable_def)

lemma catchable_JSONDecodeError [simp]: "catchable (Inl (JSONDecodeError msg doc p))"
  by (simp add: JSONDecodeError_def Let_def)

lemma catchable_RecursionError [simp]: "catchable (Inl (RecursionError what))"
  by (simp add: RecursionError_def)

lemma catchable_builtin_int [simp]: "catchable (builtin_int E integer)"
  by (simp add: builtin_int_def Let_def)

lemma catchable_scanstring [simp]: "catchable (scanstring s begin acc cs)"
proof (induction s "begin" acc cs rule: scanstring.induct)
  case (1 s "begin" acc cs)
  show ?case
    using "1.IH" by (subst scanstring.simps) (simp split: list.split option.split)
qed


lemma catchable_bind [simp]:
  "catchable (case r of Inl e \<Rightarrow> Inl e | Inr v \<Rightarrow> f v)
     = (catchable r \<and> (\<forall>v. r = Inr v \<longrightarrow> catchable (f v)))"
  by (cases r) (auto simp: catchable_def split: pyexn.splits)

lemma catchable_scan:
  "catchable (scan_once E d s cs)"
  "catchable (array_items E d s vs cs)"
  "catchable (object_items E d s ps cs)"
proof (induction E d s cs and E d s vs cs and E d s ps cs
       rule: scan_once_array_items_object_items.induct)
  case (1 E d s cs)
  show ?case
    using "1.IH"
    by (subst scan_once.simps)
       (simp split: list.split option.split nat.split prod.split)
next
  case (2 E d s vs cs)
  show ?case
    using "2.IH"
    by (subst array_items.simps)
       (simp split: list.split option.split nat.split prod.split)
next
  case (3 E d s ps cs)
  show ?case
    using "3.IH"
    by (subst object_items.simps)
       (simp split: list.split option.split nat.split prod.split)
qed


lemma catchable_json_loads: "catchable (json_loads E s)"
  by (simp add: json_loads_def catchable_scan split: list.split prod.split)

lemma json_loads_raises: "json_loads E s = Inl e \<Longrightarrow> \<exists>m. e = Exception m"
  using catchable_json_loads [of E s] by (cases e) simp_all

lemmas decoder_simps =
  json_loads_def scan_once.simps array_items.simps object_items.simps scanstring.simps
  match_number_def match_integer_def match_frac_def match_exp_def Let_def
  digits_value_def dict_def pos_def skip_ws_def is_ws_def is_digit_def lit_def
  BACKSLASH_def hex4_def hex_val_def JSONDecodeError_def dec.simps
  EXPECTING_COMMA_def EXPECTING_COLON_def EXPECTING_NAME_def INVALID_ESCAPE_def
  INVALID_UXXXX_def RecursionError_def

lemma builtin_int_two_digits:
  assumes "int_max_str_digits E = 0 \<or> 2 \<le> int_max_str_digits E"
    and "is_digit a" and "is_digit b"
  shows "builtin_int E [a, b] = Inr (PInt (int (10 * (a - 48) + (b - 48))))"
  using assms by (auto simp: builtin_int_def digits_value_def is_digit_def)


lemma loads_true: "json_loads E (lit ''true'') = Inr (PBool True)"
  by (simp add: decoder_simps)


section \<open>The client: \<^verbatim>\<open>MCPImageAnalyzer\<close>\<close>

text \<open>
  The three fields of the object. \<open>client\<close> is \<^verbatim>\<open>None\<close> or a handle; the guard
  \<^verbatim>\<open>if not self.client\<close> of the analysis methods tests exactly that.
\<close>

record analyzer =
  space_url :: pystr
  client :: "handle option"
  connection_status :: pystr

text \<open>The three texts that \<open>connection_status\<close> takes.\<close>

definition Disconnected :: pystr where
  "Disconnected = lit ''Disconnected''"

definition Connected :: pystr where
  "Connected = lit ''Connected '' @ CHECK_MARK"

definition Failed :: pystr where
  "Failed = lit ''Connection Failed '' @ CROSS_MARK"

text \<open>\<^verbatim>\<open>space_url.rstrip('/')\<close>\<close>

definition rstrip_slash :: "pystr \<Rightarrow> pystr" where
  "rstrip_slash s = rev (dropWhile (\<lambda>c. c = 0x2F) (rev s))"

text \<open>\<^verbatim>\<open>__init__(self, space_url)\<close>\<close>

definition init :: "pystr \<Rightarrow> analyzer" where
  "init url = \<lparr>space_url = rstrip_slash url, client = None, connection_status = Disconnected\<rparr>"

text \<open>
  Every method takes the object and the requests made so far, and returns what the
  call returns (or the exception that leaves it), the object and the requests
  afterwards. The argument \<^verbatim>\<open>image\<close> of the analysis methods is \<open>img\<close>: \<open>None\<close> or
  an image.
\<close>

text \<open>
  \<^verbatim>\<open>connect(self)\<close>: the assignment to \<open>client\<close> happens only when the constructor
  returns; the \<^verbatim>\<open>except\<close> branch writes the status alone.
\<close>

definition connect ::
  "env \<Rightarrow> analyzer \<Rightarrow> request list \<Rightarrow> (pyexn + pystr \<times> pystr) \<times> analyzer \<times> request list" where
  "connect E self tr =
     (case Client E (space_url self) tr of
        Inr c \<Rightarrow>
          (Inr (CHECK_MARK @ lit '' Successfully connected to '' @ space_url self, lit ''success''),
           self\<lparr>client := Some c, connection_status := Connected\<rparr>,
           tr @ [Handshake (space_url self)])
      | Inl (Exception m) \<Rightarrow>
          (Inr (CROSS_MARK @ lit '' Failed to connect to '' @ space_url self @ lit '': '' @ m,
                lit ''error''),
           self\<lparr>connection_status := Failed\<rparr>,
           tr @ [Handshake (space_url self)])
      | Inl (NonException m) \<Rightarrow>
          (Inl (NonException m), self, tr @ [Handshake (space_url self)]))"

text \<open>\<^verbatim>\<open>{"error": msg}\<close>\<close>

definition error_dict :: "pystr \<Rightarrow> pyval" where
  "error_dict msg = PDict [(lit ''error'', PStr msg)]"

text \<open>\<^verbatim>\<open>json.loads(result) if isinstance(result, str) else result\<close>\<close>

definition normalize :: "env \<Rightarrow> pyval \<Rightarrow> pyexn + pyval" where
  "normalize E result = (case result of PStr s \<Rightarrow> json_loads E s | _ \<Rightarrow> Inr result)"

text \<open>\<^verbatim>\<open>f"{result}"\<close>: a \<^verbatim>\<open>str\<close> is taken as it is, another value goes through \<^verbatim>\<open>str\<close>.\<close>

definition format_value :: "env \<Rightarrow> pyval \<Rightarrow> pyexn + pystr" where
  "format_value E result = (case result of PStr s \<Rightarrow> Inr s | _ \<Rightarrow> builtin_str E result)"

text \<open>\<^verbatim>\<open>analyze_image(self, image)\<close>\<close>

definition analyze_image ::
  "env \<Rightarrow> analyzer \<Rightarrow> image option \<Rightarrow> request list \<Rightarrow> (pyexn + pyval) \<times> analyzer \<times> request list"
  where
  "analyze_image E self img tr =
     (case client self of
        None \<Rightarrow>
          (Inr (error_dict (lit ''Not connected to MCP server. Please connect first.'')), self, tr)
      | Some c \<Rightarrow>
          (case img of
             None \<Rightarrow> (Inr (error_dict (lit ''No image provided'')), self, tr)
           | Some im \<Rightarrow>
               (try_except
                  (case predict E c im (lit ''/analyze_image'') tr of
                     Inl e \<Rightarrow> Inl e
                   | Inr result \<Rightarrow> normalize E result)
                  (\<lambda>m. error_dict (lit ''Analysis failed: '' @ m)),
                self,
                tr @ [Predict c im (lit ''/analyze_image'')])))"

text \<open>\<^verbatim>\<open>get_orientation(self, image)\<close>\<close>

definition get_orientation ::
  "env \<Rightarrow> analyzer \<Rightarrow> image option \<Rightarrow> request list \<Rightarrow> (pyexn + pystr) \<times> analyzer \<times> request list"
  where
  "get_orientation E self img tr =
     (case client self of
        None \<Rightarrow> (Inr (CROSS_MARK @ lit '' Not connected to MCP server''), self, tr)
      | Some c \<Rightarrow>
          (case img of
             None \<Rightarrow> (Inr (CROSS_MARK @ lit '' No image provided''), self, tr)
           | Some im \<Rightarrow>
               (try_except
                  (case predict E c im (lit ''/get_image_orientation'') tr of
                     Inl e \<Rightarrow> Inl e
                   | Inr result \<Rightarrow>
                       (case format_value E result of
                          Inl e \<Rightarrow> Inl e
                        | Inr text \<Rightarrow> Inr (TRIANGULAR_RULER @ lit '' Orientation: '' @ text)))
                  (\<lambda>m. CROSS_MARK @ lit '' Error: '' @ m),
                self,
                tr @ [Predict c im (lit ''/get_image_orientation'')])))"

text \<open>\<^verbatim>\<open>analyze_colors(self, image)\<close>; code point 10 is the newline of the message.\<close>

definition analyze_colors ::
  "env \<Rightarrow> analyzer \<Rightarrow> image option \<Rightarrow> request list \<Rightarrow> (pyexn + pystr) \<times> analyzer \<times> request list"
  where
  "analyze_colors E self img tr =
     (case client self of
        None \<Rightarrow> (Inr (CROSS_MARK @ lit '' Not connected to MCP server''), self, tr)
      | Some c \<Rightarrow>
          (case img of
             None \<Rightarrow> (Inr (CROSS_MARK @ lit '' No image provided''), self, tr)
           | Some im \<Rightarrow>
               (try_except
                  (case predict E c im (lit ''/count_colors'') tr of
                     Inl e \<Rightarrow> Inl e
                   | Inr result \<Rightarrow>
                       (case format_value E result of
                          Inl e \<Rightarrow> Inl e
                        | Inr text \<Rightarrow> Inr (ARTIST_PALETTE @ lit '' Color Analysis:'' @ [10] @ text)))
                  (\<lambda>m. CROSS_MARK @ lit '' Error: '' @ m),
                self,
                tr @ [Predict c im (lit ''/count_colors'')])))"

text \<open>\<^verbatim>\<open>extract_text_info(self, image)\<close>\<close>

definition extract_text_info ::
  "env \<Rightarrow> analyzer \<Rightarrow> image option \<Rightarrow> request list \<Rightarrow> (pyexn + pyval) \<times> analyzer \<times> request list"
  where
  "extract_text_info E self img tr =
     (case client self of
        None \<Rightarrow> (Inr (error_dict (lit ''Not connected to MCP server'')), self, tr)
      | Some c \<Rightarrow>
          (case img of
             None \<Rightarrow> (Inr (error_dict (lit ''No image provided'')), self, tr)
           | Some im \<Rightarrow>
               (try_except
                  (case predict E c im (lit ''/extract_text_info'') tr of
                     Inl e \<Rightarrow> Inl e
                   | Inr result \<Rightarrow> normalize E result)
                  (\<lambda>m. error_dict (lit ''Text analysis failed: '' @ m)),
                self,
                tr @ [Predict c im (lit ''/extract_text_info'')])))"

text \<open>
  The four analysis methods under one name, the text of the two that return a
  \<^verbatim>\<open>str\<close> as the value \<open>PStr\<close>.
\<close>

datatype operation = AnalyzeImage | GetOrientation | AnalyzeColors | ExtractTextInfo

definition as_value ::
  "(pyexn + pystr) \<times> analyzer \<times> request list \<Rightarrow> (pyexn + pyval) \<times> analyzer \<times> request list" where
  "as_value r = (case r of (Inl e, self, tr) \<Rightarrow> (Inl e, self, tr) | (Inr text, self, tr) \<Rightarrow> (Inr (PStr text), self, tr))"

definition perform ::
  "env \<Rightarrow> operation \<Rightarrow> analyzer \<Rightarrow> image option \<Rightarrow> request list
     \<Rightarrow> (pyexn + pyval) \<times> analyzer \<times> request list" where
  "perform E op self img tr =
     (case op of
        AnalyzeImage \<Rightarrow> analyze_image E self img tr
      | GetOrientation \<Rightarrow> as_value (get_orientation E self img tr)
      | AnalyzeColors \<Rightarrow> as_value (analyze_colors E self img tr)
      | ExtractTextInfo \<Rightarrow> extract_text_info E self img tr)"

text \<open>
  The states of the client that the class can produce: a constructed object, and what
  any of its methods leaves behind.
\<close>

inductive reachable :: "env \<Rightarrow> analyzer \<times> request list \<Rightarrow> bool" for E :: env where
  constructed: "reachable E (init url, [])"
| connected: "reachable E (self, tr) \<Longrightarrow> connect E self tr = (r, self', tr')
     \<Longrightarrow> reachable E (self', tr')"
| performed: "reachable E (self, tr) \<Longrightarrow> perform E op self img tr = (r, self', tr')
     \<Longrightarrow> reachable E (self', tr')"

text \<open>\<^verbatim>\<open>isinstance(v, str)\<close> and \<^verbatim>\<open>isinstance(v, dict)\<close>\<close>

definition is_str :: "pyval \<Rightarrow> bool" where
  "is_str v = (case v of PStr s \<Rightarrow> True | _ \<Rightarrow> False)"

definition is_dict :: "pyval \<Rightarrow> bool" where
  "is_dict v = (case v of PDict d \<Rightarrow> True | _ \<Rightarrow> False)"

section \<open>Sample data\<close>

text \<open>
  The default endpoint of \<^verbatim>\<open>__init__\<close> and the first image of
  \<^verbatim>\<open>create_sample_images\<close>, \<^verbatim>\<open>Image.new('RGB', (400, 300), color='red')\<close>.
\<close>

definition default_url :: pystr where
  "default_url = lit ''https://chris4k-mcp-images.hf.space''"

definition red_rectangle :: image where
  "red_rectangle = Image (lit ''RGB'') 400 300 (\<lambda>p. (255, 0, 0))"

text \<open>
  A service that accepts every handshake with handle 7 and answers every call with
  the same value, under an interpreter with the default limits.
\<close>

definition answering :: "pyval \<Rightarrow> env" where
  "answering answer =
     \<lparr>Client = (\<lambda>url tr. Inr 7),
      predict = (\<lambda>c im api tr. Inr answer),
      builtin_float = (\<lambda>s. s),
      builtin_str = (\<lambda>v. Inr (lit ''None'')),
      recursion_limit = 1000,
      int_max_str_digits = 4300\<rparr>"

text \<open>
  A service that accepts the first handshake and refuses every later one, and
  answers every call with the size of the image.
\<close>

definition refusing_later :: env where
  "refusing_later =
     \<lparr>Client = (\<lambda>url tr. if tr = [] then Inr 7 else Inl (Exception (lit ''Connection refused''))),
      predict = (\<lambda>c im api tr.
         Inr (PDict [(lit ''width'', PInt (int (width im))), (lit ''height'', PInt (int (height im)))])),
      builtin_float = (\<lambda>s. s),
      builtin_str = (\<lambda>v. Inr (lit ''None'')),
      recursion_limit = 1000,
      int_max_str_digits = 4300\<rparr>"

text \<open>A service that cannot be reached at all.\<close>

definition unreachable :: env where
  "unreachable =
     \<lparr>Client = (\<lambda>url tr. Inl (Exception (lit ''Name or service not known''))),
      predict = (\<lambda>c im api tr. Inl (Exception (lit ''Name or service not known''))),
      builtin_float = (\<lambda>s. s),
      builtin_str = (\<lambda>v. Inr (lit ''None'')),
      recursion_limit = 1000,
      int_max_str_digits = 4300\<rparr>"


text \<open>A service that answers with a text that is not JSON: the key has no quotes.\<close>

definition unquoted_key_text :: env where
  "unquoted_key_text = answering (PStr (lit ''{width: 10}''))"

text \<open>A service that answers with a mapping.\<close>

definition size_as_dict :: env where
  "size_as_dict = answering (PDict [(lit ''width'', PInt 400), (lit ''height'', PInt 300)])"

text \<open>A service that answers with the text of a JSON array.\<close>

definition size_as_array_text :: env where
  "size_as_array_text = answering (PStr (lit ''[10, 20]''))"

text \<open>A service that answers with an orientation label.\<close>

definition landscape_text :: env where
  "landscape_text = answering (PStr (lit ''landscape''))"

text \<open>A service that accepts every handshake and drops every call.\<close>

definition dropping_calls :: env where
  "dropping_calls =
     \<lparr>Client = (\<lambda>url tr. Inr 7),
      predict = (\<lambda>c im api tr. Inl (Exception (lit ''Connection reset by peer''))),
      builtin_float = (\<lambda>s. s),
      builtin_str = (\<lambda>v. Inr (lit ''None'')),
      recursion_limit = 1000,
      int_max_str_digits = 4300\<rparr>"

text \<open>A service that answers with the text \<^verbatim>\<open>NaN\<close>.\<close>

definition nan_text :: env where
  "nan_text = answering (PStr (lit ''NaN''))"

text \<open>The client after one call of \<^verbatim>\<open>connect\<close>, and after two.\<close>

definition connected_once :: "env \<Rightarrow> analyzer \<times> request list" where
  "connected_once E = snd (connect E (init default_url) [])"

definition connected_twice :: "env \<Rightarrow> analyzer \<times> request list" where
  "connected_twice E = snd (connect E (fst (connected_once E)) (snd (connected_once E)))"

section \<open>What the analysis methods leave untouched\<close>

lemma analyze_image_self: "fst (snd (analyze_image E self img tr)) = self"
  by (simp add: analyze_image_def split: option.splits)

lemma get_orientation_self: "fst (snd (get_orientation E self img tr)) = self"
  by (simp add: get_orientation_def split: option.splits)

lemma analyze_colors_self: "fst (snd (analyze_colors E self img tr)) = self"
  by (simp add: analyze_colors_def split: option.splits)

lemma extract_text_info_self: "fst (snd (extract_text_info E self img tr)) = self"
  by (simp add: extract_text_info_def split: option.splits)

lemma as_value_self: "fst (snd (as_value r)) = fst (snd r)"
  by (cases r rule: prod_cases3) (simp add: as_value_def split: sum.splits)

lemma perform_self: "fst (snd (perform E op self img tr)) = self"
  by (cases op)
     (simp_all add: perform_def as_value_self analyze_image_self get_orientation_self
        analyze_colors_self extract_text_info_self)

text \<open>
  C9. Every analysis operation, whatever comes back from the remote side, returns the
  client as it was: the same status, the same handle, the same endpoint.
\<close>

theorem analysis_leaves_client_unchanged:
  "fst (snd (perform E op self img tr)) = self
   \<and> connection_status (fst (snd (perform E op self img tr))) = connection_status self
   \<and> client (fst (snd (perform E op self img tr))) = client self
   \<and> space_url (fst (snd (perform E op self img tr))) = space_url self"
  by (simp add: perform_self)

section \<open>The states of a connected client\<close>

lemma status_distinct:
  "Disconnected \<noteq> Connected" "Failed \<noteq> Connected" "Failed \<noteq> Disconnected"
  by (simp_all add: Disconnected_def Connected_def Failed_def lit_def CHECK_MARK_def CROSS_MARK_def)

lemma connected_has_client_aux:
  "reachable E st \<Longrightarrow> connection_status (fst st) = Connected \<longrightarrow> client (fst st) \<noteq> None"
proof (induction rule: reachable.induct)
  case (constructed url)
  show ?case by (simp add: init_def status_distinct)
next
  case (connected self tr r self' tr')
  then show ?case
    by (auto simp: connect_def status_distinct split: sum.splits pyexn.splits)
next
  case (performed self tr op img r self' tr')
  have "self' = self"
    using perform_self [of E op self img tr] performed.hyps(2) by simp
  with performed.IH show ?case by simp
qed

lemma connected_has_client:
  assumes "reachable E (self, tr)" and "connection_status self = Connected"
  obtains c where "client self = Some c"
  using connected_has_client_aux [OF assms(1)] assms(2) by auto

lemma analyze_image_request:
  "client self = Some c \<Longrightarrow>
   analyze_image E self (Some im) tr =
     (try_except
        (case predict E c im (lit ''/analyze_image'') tr of
           Inl e \<Rightarrow> Inl e | Inr result \<Rightarrow> normalize E result)
        (\<lambda>m. error_dict (lit ''Analysis failed: '' @ m)),
      self, tr @ [Predict c im (lit ''/analyze_image'')])"
  by (simp add: analyze_image_def)

lemma extract_text_info_request:
  "client self = Some c \<Longrightarrow>
   extract_text_info E self (Some im) tr =
     (try_except
        (case predict E c im (lit ''/extract_text_info'') tr of
           Inl e \<Rightarrow> Inl e | Inr result \<Rightarrow> normalize E result)
        (\<lambda>m. error_dict (lit ''Text analysis failed: '' @ m)),
      self, tr @ [Predict c im (lit ''/extract_text_info'')])"
  by (simp add: extract_text_info_def)

lemma normalize_str: "normalize E (PStr s) = json_loads E s"
  by (simp add: normalize_def)

lemma normalize_other: "\<not> is_str v \<Longrightarrow> normalize E v = Inr v"
  by (cases v) (simp_all add: normalize_def is_str_def)

lemma rstrip_default_url: "rstrip_slash default_url = default_url"
  by (simp add: rstrip_slash_def default_url_def lit_def)

lemma reachable_connected_once: "reachable E (connected_once E)"
proof -
  have "reachable E (snd (connect E (init default_url) []))"
    using reachable.connected [OF reachable.constructed, of E default_url
        "fst (connect E (init default_url) [])"
        "fst (snd (connect E (init default_url) []))"
        "snd (snd (connect E (init default_url) []))"]
    by simp
  then show ?thesis by (simp add: connected_once_def)
qed

lemma reachable_connected_twice: "reachable E (connected_twice E)"
proof -
  have "reachable E (fst (connected_once E), snd (connected_once E))"
    using reachable_connected_once [of E] by simp
  from reachable.connected [OF this, of
        "fst (connect E (fst (connected_once E)) (snd (connected_once E)))"
        "fst (snd (connect E (fst (connected_once E)) (snd (connected_once E))))"
        "snd (snd (connect E (fst (connected_once E)) (snd (connected_once E))))"]
  show ?thesis by (simp add: connected_twice_def)
qed

lemma connected_once_answering:
  "connected_once (answering a) =
     (\<lparr>space_url = default_url, client = Some 7, connection_status = Connected\<rparr>,
      [Handshake default_url])"
  by (simp add: connected_once_def connect_def answering_def init_def rstrip_default_url)

section \<open>What a connected client returns\<close>


lemma answering_fields:
  "Client (answering a) url tr = Inr 7"
  "predict (answering a) c im api tr = Inr a"
  "recursion_limit (answering a) = 1000"
  "int_max_str_digits (answering a) = 4300"
  by (simp_all add: answering_def)



lemma loads_unquoted_key:
  assumes "0 < recursion_limit E"
  shows "json_loads E (lit ''{width: 10}'')
           = Inl (Exception (lit ''Expecting property name enclosed in double quotes: line 1 column 2 (char 1)''))"
proof -
  obtain d where d: "recursion_limit E = Suc d"
    using assms by (cases "recursion_limit E") auto
  show ?thesis
    by (simp add: decoder_simps d)
qed

text \<open>
  C3, as the code has it. A connected client, a non-null image, and a remote answer
  that is a string on which \<^verbatim>\<open>json.loads\<close> raises: the exception is one that
  \<^verbatim>\<open>except Exception\<close> catches, and both methods return the error mapping whose
  message ends with the text of the exception. Nothing is raised to the caller.
\<close>

theorem malformed_json_is_error_result:
  assumes "reachable E (self, tr)" and "connection_status self = Connected"
  shows "\<exists>c. client self = Some c
     \<and> (\<forall>s e. predict E c im (lit ''/analyze_image'') tr = Inr (PStr s) \<and> json_loads E s = Inl e
          \<longrightarrow> (\<exists>m. e = Exception m
                \<and> analyze_image E self (Some im) tr
                    = (Inr (error_dict (lit ''Analysis failed: '' @ m)), self,
                       tr @ [Predict c im (lit ''/analyze_image'')])))
     \<and> (\<forall>s e. predict E c im (lit ''/extract_text_info'') tr = Inr (PStr s) \<and> json_loads E s = Inl e
          \<longrightarrow> (\<exists>m. e = Exception m
                \<and> extract_text_info E self (Some im) tr
                    = (Inr (error_dict (lit ''Text analysis failed: '' @ m)), self,
                       tr @ [Predict c im (lit ''/extract_text_info'')])))"
proof -
  obtain c where c: "client self = Some c"
    using assms by (rule connected_has_client)
  show ?thesis
  proof (intro exI [of _ c] conjI allI impI)
    show "client self = Some c" by (rule c)
  next
    fix s e
    assume a: "predict E c im (lit ''/analyze_image'') tr = Inr (PStr s) \<and> json_loads E s = Inl e"
    then obtain m where m: "e = Exception m"
      using json_loads_raises [of E s e] by auto
    with a show "\<exists>m. e = Exception m
                \<and> analyze_image E self (Some im) tr
                    = (Inr (error_dict (lit ''Analysis failed: '' @ m)), self,
                       tr @ [Predict c im (lit ''/analyze_image'')])"
      by (simp add: analyze_image_request [OF c] normalize_str)
  next
    fix s e
    assume a: "predict E c im (lit ''/extract_text_info'') tr = Inr (PStr s) \<and> json_loads E s = Inl e"
    then obtain m where m: "e = Exception m"
      using json_loads_raises [of E s e] by auto
    with a show "\<exists>m. e = Exception m
                \<and> extract_text_info E self (Some im) tr
                    = (Inr (error_dict (lit ''Text analysis failed: '' @ m)), self,
                       tr @ [Predict c im (lit ''/extract_text_info'')])"
      by (simp add: extract_text_info_request [OF c] normalize_str)
  qed
qed

text \<open>The same on a service that answers with an unquoted key.\<close>

theorem malformed_json_is_error_result_witness:
  "reachable unquoted_key_text (connected_once unquoted_key_text)
   \<and> connection_status (fst (connected_once unquoted_key_text)) = Connected
   \<and> analyze_image unquoted_key_text (fst (connected_once unquoted_key_text)) (Some red_rectangle)
        (snd (connected_once unquoted_key_text))
      = (Inr (error_dict (lit ''Analysis failed: Expecting property name enclosed in double quotes: line 1 column 2 (char 1)'')),
         fst (connected_once unquoted_key_text),
         [Handshake default_url, Predict 7 red_rectangle (lit ''/analyze_image'')])
   \<and> extract_text_info unquoted_key_text (fst (connected_once unquoted_key_text)) (Some red_rectangle)
        (snd (connected_once unquoted_key_text))
      = (Inr (error_dict (lit ''Text analysis failed: Expecting property name enclosed in double quotes: line 1 column 2 (char 1)'')),
         fst (connected_once unquoted_key_text),
         [Handshake default_url, Predict 7 red_rectangle (lit ''/extract_text_info'')])"
proof -
  let ?E = unquoted_key_text
  have st: "connected_once ?E =
     (\<lparr>space_url = default_url, client = Some 7, connection_status = Connected\<rparr>,
      [Handshake default_url])"
    by (simp add: unquoted_key_text_def connected_once_answering)
  have r: "reachable ?E (fst (connected_once ?E), snd (connected_once ?E))"
    using reachable_connected_once [of ?E] by simp
  have s: "connection_status (fst (connected_once ?E)) = Connected"
    by (simp add: st)
  have p: "predict ?E 7 red_rectangle api [Handshake default_url]
             = Inr (PStr (lit ''{width: 10}''))" for api
    by (simp add: unquoted_key_text_def answering_fields)
  have l: "json_loads ?E (lit ''{width: 10}'')
           = Inl (Exception (lit ''Expecting property name enclosed in double quotes: line 1 column 2 (char 1)''))"
    by (rule loads_unquoted_key) (simp add: unquoted_key_text_def answering_fields)
  have cat: "lit a @ lit b = lit (a @ b)" for a b
    by (simp add: lit_def)
  from malformed_json_is_error_result [OF r s, of red_rectangle] reachable_connected_once [of ?E]
  show ?thesis
    by (simp add: st p l cat)
qed


lemma loads_nan: "json_loads E (lit ''NaN'') = Inr (PFloat (lit ''nan''))"
  by (simp add: decoder_simps)

text \<open>
  C3, as the claim states it, fails. The text \<^verbatim>\<open>NaN\<close> is not valid JSON (RFC 8259 has
  no such literal), yet \<^verbatim>\<open>json.loads\<close> accepts it: both methods return the float, which
  is not an error mapping.
\<close>

theorem nan_text_is_accepted_counterexample:
  "reachable nan_text (connected_once nan_text)
   \<and> connection_status (fst (connected_once nan_text)) = Connected
   \<and> predict nan_text 7 red_rectangle (lit ''/analyze_image'') (snd (connected_once nan_text))
      = Inr (PStr (lit ''NaN''))
   \<and> predict nan_text 7 red_rectangle (lit ''/extract_text_info'') (snd (connected_once nan_text))
      = Inr (PStr (lit ''NaN''))
   \<and> analyze_image nan_text (fst (connected_once nan_text)) (Some red_rectangle)
        (snd (connected_once nan_text))
      = (Inr (PFloat (lit ''nan'')), fst (connected_once nan_text),
         [Handshake default_url, Predict 7 red_rectangle (lit ''/analyze_image'')])
   \<and> extract_text_info nan_text (fst (connected_once nan_text)) (Some red_rectangle)
        (snd (connected_once nan_text))
      = (Inr (PFloat (lit ''nan'')), fst (connected_once nan_text),
         [Handshake default_url, Predict 7 red_rectangle (lit ''/extract_text_info'')])
   \<and> \<not> is_dict (PFloat (lit ''nan''))"
proof -
  have st: "connected_once nan_text =
     (\<lparr>space_url = default_url, client = Some 7, connection_status = Connected\<rparr>,
      [Handshake default_url])"
    by (simp add: nan_text_def connected_once_answering)
  have p: "predict nan_text c im api tr = Inr (PStr (lit ''NaN''))" for c im api tr
    by (simp add: nan_text_def answering_fields)
  have c: "client (fst (connected_once nan_text)) = Some 7"
    by (simp add: st)
  have a: "analyze_image nan_text (fst (connected_once nan_text)) (Some red_rectangle)
        (snd (connected_once nan_text))
      = (Inr (PFloat (lit ''nan'')), fst (connected_once nan_text),
         [Handshake default_url, Predict 7 red_rectangle (lit ''/analyze_image'')])"
    by (simp add: analyze_image_request [OF c] p normalize_str loads_nan) (simp add: st)
  have b: "extract_text_info nan_text (fst (connected_once nan_text)) (Some red_rectangle)
        (snd (connected_once nan_text))
      = (Inr (PFloat (lit ''nan'')), fst (connected_once nan_text),
         [Handshake default_url, Predict 7 red_rectangle (lit ''/extract_text_info'')])"
    by (simp add: extract_text_info_request [OF c] p normalize_str loads_nan) (simp add: st)
  from reachable_connected_once [of nan_text] a b show ?thesis
    by (simp add: st p is_dict_def)
qed

text \<open>
  C6. A connected client, a non-null image, and a remote answer that is not a string:
  both methods return the answer itself.
\<close>

theorem structured_value_passes_through:
  assumes "reachable E (self, tr)" and "connection_status self = Connected"
  shows "\<exists>c. client self = Some c
     \<and> (\<forall>v. predict E c im (lit ''/analyze_image'') tr = Inr v \<and> \<not> is_str v
          \<longrightarrow> analyze_image E self (Some im) tr
                = (Inr v, self, tr @ [Predict c im (lit ''/analyze_image'')]))
     \<and> (\<forall>v. predict E c im (lit ''/extract_text_info'') tr = Inr v \<and> \<not> is_str v
          \<longrightarrow> extract_text_info E self (Some im) tr
                = (Inr v, self, tr @ [Predict c im (lit ''/extract_text_info'')]))"
proof -
  obtain c where c: "client self = Some c"
    using assms by (rule connected_has_client)
  show ?thesis
    by (intro exI [of _ c])
       (simp add: c analyze_image_request [OF c] extract_text_info_request [OF c] normalize_other)
qed

text \<open>The same on a service that answers with a mapping.\<close>

theorem structured_value_passes_through_witness:
  "reachable size_as_dict (connected_once size_as_dict)
   \<and> connection_status (fst (connected_once size_as_dict)) = Connected
   \<and> analyze_image size_as_dict (fst (connected_once size_as_dict)) (Some red_rectangle)
        (snd (connected_once size_as_dict))
      = (Inr (PDict [(lit ''width'', PInt 400), (lit ''height'', PInt 300)]),
         fst (connected_once size_as_dict),
         [Handshake default_url, Predict 7 red_rectangle (lit ''/analyze_image'')])
   \<and> extract_text_info size_as_dict (fst (connected_once size_as_dict)) (Some red_rectangle)
        (snd (connected_once size_as_dict))
      = (Inr (PDict [(lit ''width'', PInt 400), (lit ''height'', PInt 300)]),
         fst (connected_once size_as_dict),
         [Handshake default_url, Predict 7 red_rectangle (lit ''/extract_text_info'')])"
proof -
  let ?E = size_as_dict
  have st: "connected_once ?E =
     (\<lparr>space_url = default_url, client = Some 7, connection_status = Connected\<rparr>,
      [Handshake default_url])"
    by (simp add: size_as_dict_def connected_once_answering)
  have r: "reachable ?E (fst (connected_once ?E), snd (connected_once ?E))"
    using reachable_connected_once [of ?E] by simp
  have s: "connection_status (fst (connected_once ?E)) = Connected"
    by (simp add: st)
  have p: "predict ?E 7 red_rectangle api [Handshake default_url]
             = Inr (PDict [(lit ''width'', PInt 400), (lit ''height'', PInt 300)])" for api
    by (simp add: size_as_dict_def answering_fields)
  from structured_value_passes_through [OF r s, of red_rectangle] reachable_connected_once [of ?E]
  show ?thesis
    by (simp add: st p is_str_def)
qed

lemma loads_array:
  assumes "0 < recursion_limit E"
    and "int_max_str_digits E = 0 \<or> 2 \<le> int_max_str_digits E"
  shows "json_loads E (lit ''[10, 20]'') = Inr (PList [PInt 10, PInt 20])"
proof -
  obtain d where d: "recursion_limit E = Suc d"
    using assms(1) by (cases "recursion_limit E") auto
  have ten: "builtin_int E [49, 48] = Inr (PInt 10)"
    using builtin_int_two_digits [OF assms(2), of 49 48] by (simp add: is_digit_def)
  have twenty: "builtin_int E [50, 48] = Inr (PInt 20)"
    using builtin_int_two_digits [OF assms(2), of 50 48] by (simp add: is_digit_def)
  show ?thesis
    by (simp add: decoder_simps d ten twenty)
qed

text \<open>
  C10. A connected client, a non-null image, and a remote answer that is a string which
  decodes to something other than a mapping: both methods return that value, with no
  check of its shape. The text \<^verbatim>\<open>true\<close> comes back as the boolean, which is neither a
  mapping nor, therefore, an error mapping.
\<close>

theorem parsed_non_mapping_is_returned:
  assumes "reachable E (self, tr)" and "connection_status self = Connected"
  shows "\<exists>c. client self = Some c
     \<and> (\<forall>s v. predict E c im (lit ''/analyze_image'') tr = Inr (PStr s)
               \<and> json_loads E s = Inr v \<and> \<not> is_dict v
          \<longrightarrow> analyze_image E self (Some im) tr
                = (Inr v, self, tr @ [Predict c im (lit ''/analyze_image'')]))
     \<and> (\<forall>s v. predict E c im (lit ''/extract_text_info'') tr = Inr (PStr s)
               \<and> json_loads E s = Inr v \<and> \<not> is_dict v
          \<longrightarrow> extract_text_info E self (Some im) tr
                = (Inr v, self, tr @ [Predict c im (lit ''/extract_text_info'')]))
     \<and> (predict E c im (lit ''/analyze_image'') tr = Inr (PStr (lit ''true''))
          \<longrightarrow> analyze_image E self (Some im) tr
                = (Inr (PBool True), self, tr @ [Predict c im (lit ''/analyze_image'')])
              \<and> \<not> is_dict (PBool True))"
proof -
  obtain c where c: "client self = Some c"
    using assms by (rule connected_has_client)
  show ?thesis
    by (intro exI [of _ c])
       (simp add: c analyze_image_request [OF c] extract_text_info_request [OF c] normalize_str
          loads_true is_dict_def)
qed

text \<open>The same on a service that answers with the text of an array.\<close>

theorem parsed_non_mapping_is_returned_witness:
  "reachable size_as_array_text (connected_once size_as_array_text)
   \<and> connection_status (fst (connected_once size_as_array_text)) = Connected
   \<and> analyze_image size_as_array_text (fst (connected_once size_as_array_text))
        (Some red_rectangle) (snd (connected_once size_as_array_text))
      = (Inr (PList [PInt 10, PInt 20]),
         fst (connected_once size_as_array_text),
         [Handshake default_url, Predict 7 red_rectangle (lit ''/analyze_image'')])
   \<and> extract_text_info size_as_array_text (fst (connected_once size_as_array_text))
        (Some red_rectangle) (snd (connected_once size_as_array_text))
      = (Inr (PList [PInt 10, PInt 20]),
         fst (connected_once size_as_array_text),
         [Handshake default_url, Predict 7 red_rectangle (lit ''/extract_text_info'')])
   \<and> \<not> is_dict (PList [PInt 10, PInt 20])"
proof -
  let ?E = size_as_array_text
  have st: "connected_once ?E =
     (\<lparr>space_url = default_url, client = Some 7, connection_status = Connected\<rparr>,
      [Handshake default_url])"
    by (simp add: size_as_array_text_def connected_once_answering)
  have r: "reachable ?E (fst (connected_once ?E), snd (connected_once ?E))"
    using reachable_connected_once [of ?E] by simp
  have s: "connection_status (fst (connected_once ?E)) = Connected"
    by (simp add: st)
  have p: "predict ?E 7 red_rectangle api [Handshake default_url]
             = Inr (PStr (lit ''[10, 20]''))" for api
    by (simp add: size_as_array_text_def answering_fields)
  have l: "json_loads ?E (lit ''[10, 20]'') = Inr (PList [PInt 10, PInt 20])"
    by (rule loads_array) (simp_all add: size_as_array_text_def answering_fields)
  have ne: "lit ''[10, 20]'' \<noteq> lit ''true''"
    by (simp add: lit_def)
  from parsed_non_mapping_is_returned [OF r s, of red_rectangle] reachable_connected_once [of ?E]
  show ?thesis
    by (simp add: st p l ne is_dict_def)
qed

section \<open>Orientation, missing images, missing connections\<close>

lemma get_orientation_request:
  "client self = Some c \<Longrightarrow>
   get_orientation E self (Some im) tr =
     (try_except
        (case predict E c im (lit ''/get_image_orientation'') tr of
           Inl e \<Rightarrow> Inl e
         | Inr result \<Rightarrow>
             (case format_value E result of
                Inl e \<Rightarrow> Inl e
              | Inr text \<Rightarrow> Inr (TRIANGULAR_RULER @ lit '' Orientation: '' @ text)))
        (\<lambda>m. CROSS_MARK @ lit '' Error: '' @ m),
      self, tr @ [Predict c im (lit ''/get_image_orientation'')])"
  by (simp add: get_orientation_def)

lemma lit_append: "lit a @ lit b = lit (a @ b)"
  by (simp add: lit_def)

text \<open>
  C4, as the code has it. A connected client, a non-null image, and a label from the
  remote \<^verbatim>\<open>/get_image_orientation\<close>: \<^verbatim>\<open>get_orientation\<close> returns the fixed prefix
  of the f-string, the ruler pictograph and \<^verbatim>\<open> Orientation: \<close>, followed by the label as it
  came.
\<close>

theorem orientation_label_follows_prefix:
  assumes "reachable E (self, tr)" and "connection_status self = Connected"
  shows "\<exists>c. client self = Some c
     \<and> (\<forall>label. predict E c im (lit ''/get_image_orientation'') tr = Inr (PStr label)
          \<longrightarrow> get_orientation E self (Some im) tr
                = (Inr (TRIANGULAR_RULER @ lit '' Orientation: '' @ label), self,
                   tr @ [Predict c im (lit ''/get_image_orientation'')]))"
proof -
  obtain c where c: "client self = Some c"
    using assms by (rule connected_has_client)
  show ?thesis
    by (intro exI [of _ c]) (simp add: c get_orientation_request [OF c] format_value_def)
qed

text \<open>The same on a service that answers \<^verbatim>\<open>landscape\<close>.\<close>

theorem orientation_label_follows_prefix_witness:
  "reachable landscape_text (connected_once landscape_text)
   \<and> connection_status (fst (connected_once landscape_text)) = Connected
   \<and> get_orientation landscape_text (fst (connected_once landscape_text)) (Some red_rectangle)
        (snd (connected_once landscape_text))
      = (Inr (TRIANGULAR_RULER @ lit '' Orientation: landscape''),
         fst (connected_once landscape_text),
         [Handshake default_url, Predict 7 red_rectangle (lit ''/get_image_orientation'')])"
proof -
  let ?E = landscape_text
  have st: "connected_once ?E =
     (\<lparr>space_url = default_url, client = Some 7, connection_status = Connected\<rparr>,
      [Handshake default_url])"
    by (simp add: landscape_text_def connected_once_answering)
  have r: "reachable ?E (fst (connected_once ?E), snd (connected_once ?E))"
    using reachable_connected_once [of ?E] by simp
  have s: "connection_status (fst (connected_once ?E)) = Connected"
    by (simp add: st)
  have p: "predict ?E 7 red_rectangle api [Handshake default_url]
             = Inr (PStr (lit ''landscape''))" for api
    by (simp add: landscape_text_def answering_fields)
  from orientation_label_follows_prefix [OF r s, of red_rectangle]
    reachable_connected_once [of ?E]
  show ?thesis
    by (simp add: st p lit_append)
qed

text \<open>
  C4, as the claim states it, fails: on the label \<^verbatim>\<open>landscape\<close> the returned text is not
  the label but the label behind the prefix.
\<close>

theorem orientation_not_verbatim_counterexample:
  "reachable landscape_text (connected_once landscape_text)
   \<and> connection_status (fst (connected_once landscape_text)) = Connected
   \<and> predict landscape_text 7 red_rectangle (lit ''/get_image_orientation'')
        (snd (connected_once landscape_text)) = Inr (PStr (lit ''landscape''))
   \<and> fst (get_orientation landscape_text (fst (connected_once landscape_text))
            (Some red_rectangle) (snd (connected_once landscape_text)))
      = Inr (TRIANGULAR_RULER @ lit '' Orientation: landscape'')
   \<and> fst (get_orientation landscape_text (fst (connected_once landscape_text))
            (Some red_rectangle) (snd (connected_once landscape_text)))
      \<noteq> Inr (lit ''landscape'')"
proof -
  let ?E = landscape_text
  have st: "connected_once ?E =
     (\<lparr>space_url = default_url, client = Some 7, connection_status = Connected\<rparr>,
      [Handshake default_url])"
    by (simp add: landscape_text_def connected_once_answering)
  have p: "predict ?E 7 red_rectangle api tr = Inr (PStr (lit ''landscape''))" for api tr
    by (simp add: landscape_text_def answering_fields)
  have g: "fst (get_orientation ?E (fst (connected_once ?E)) (Some red_rectangle)
                 (snd (connected_once ?E)))
           = Inr (TRIANGULAR_RULER @ lit '' Orientation: landscape'')"
    by (simp add: st get_orientation_def p format_value_def lit_append)
  have ne: "TRIANGULAR_RULER @ lit '' Orientation: landscape'' \<noteq> lit ''landscape''"
    by (simp add: TRIANGULAR_RULER_def lit_def)
  from reachable_connected_once [of ?E] g ne show ?thesis
    by (simp add: st p)
qed

lemma mentions_no_image:
  "sublist (lit ''No image'') (lit ''No image provided'')"
  "sublist (lit ''No image'') (CROSS_MARK @ lit '' No image provided'')"
proof -
  have "lit ''No image provided'' = [] @ lit ''No image'' @ lit '' provided''"
    by (simp add: lit_def)
  then show "sublist (lit ''No image'') (lit ''No image provided'')"
    unfolding sublist_def by blast
  have "CROSS_MARK @ lit '' No image provided''
          = (CROSS_MARK @ lit '' '') @ lit ''No image'' @ lit '' provided''"
    by (simp add: lit_def)
  then show "sublist (lit ''No image'') (CROSS_MARK @ lit '' No image provided'')"
    unfolding sublist_def by blast
qed

text \<open>
  C8. A connected client and \<^verbatim>\<open>None\<close> for the image: each of the four methods returns its
  error result, whose message says that no image was provided, and the list of requests
  is as it was.
\<close>

theorem null_image_is_refused:
  assumes "reachable E (self, tr)" and "connection_status self = Connected"
  shows "analyze_image E self None tr = (Inr (error_dict (lit ''No image provided'')), self, tr)
     \<and> get_orientation E self None tr = (Inr (CROSS_MARK @ lit '' No image provided''), self, tr)
     \<and> analyze_colors E self None tr = (Inr (CROSS_MARK @ lit '' No image provided''), self, tr)
     \<and> extract_text_info E self None tr
         = (Inr (error_dict (lit ''No image provided'')), self, tr)
     \<and> sublist (lit ''No image'') (lit ''No image provided'')
     \<and> sublist (lit ''No image'') (CROSS_MARK @ lit '' No image provided'')"
proof -
  obtain c where c: "client self = Some c"
    using assms by (rule connected_has_client)
  show ?thesis
    by (simp add: c analyze_image_def get_orientation_def analyze_colors_def
          extract_text_info_def mentions_no_image)
qed

text \<open>The same on a client connected to a service.\<close>

theorem null_image_is_refused_witness:
  "reachable landscape_text (connected_once landscape_text)
   \<and> connection_status (fst (connected_once landscape_text)) = Connected
   \<and> analyze_image landscape_text (fst (connected_once landscape_text)) None
        (snd (connected_once landscape_text))
      = (Inr (error_dict (lit ''No image provided'')), fst (connected_once landscape_text),
         [Handshake default_url])
   \<and> get_orientation landscape_text (fst (connected_once landscape_text)) None
        (snd (connected_once landscape_text))
      = (Inr (CROSS_MARK @ lit '' No image provided''), fst (connected_once landscape_text),
         [Handshake default_url])
   \<and> analyze_colors landscape_text (fst (connected_once landscape_text)) None
        (snd (connected_once landscape_text))
      = (Inr (CROSS_MARK @ lit '' No image provided''), fst (connected_once landscape_text),
         [Handshake default_url])
   \<and> extract_text_info landscape_text (fst (connected_once landscape_text)) None
        (snd (connected_once landscape_text))
      = (Inr (error_dict (lit ''No image provided'')), fst (connected_once landscape_text),
         [Handshake default_url])"
proof -
  let ?E = landscape_text
  have st: "connected_once ?E =
     (\<lparr>space_url = default_url, client = Some 7, connection_status = Connected\<rparr>,
      [Handshake default_url])"
    by (simp add: landscape_text_def connected_once_answering)
  have r: "reachable ?E (fst (connected_once ?E), snd (connected_once ?E))"
    using reachable_connected_once [of ?E] by simp
  have s: "connection_status (fst (connected_once ?E)) = Connected"
    by (simp add: st)
  from null_image_is_refused [OF r s] reachable_connected_once [of ?E]
  show ?thesis
    by (simp add: st)
qed


lemma connected_once_unreachable:
  "connected_once unreachable =
     (\<lparr>space_url = default_url, client = None, connection_status = Failed\<rparr>,
      [Handshake default_url])"
  by (simp add: connected_once_def connect_def unreachable_def init_def rstrip_default_url)

lemma connected_once_refusing_later:
  "connected_once refusing_later =
     (\<lparr>space_url = default_url, client = Some 7, connection_status = Connected\<rparr>,
      [Handshake default_url])"
  by (simp add: connected_once_def connect_def refusing_later_def init_def rstrip_default_url)

lemma connected_twice_refusing_later:
  "connected_twice refusing_later =
     (\<lparr>space_url = default_url, client = Some 7, connection_status = Failed\<rparr>,
      [Handshake default_url, Handshake default_url])"
  by (simp add: connected_twice_def connected_once_refusing_later)
     (simp add: connect_def refusing_later_def)

text \<open>
  C1, as the code has it. The guard of the analysis methods is on the handle, not on the
  status. A client that holds no handle (no \<^verbatim>\<open>connect\<close> has succeeded on it, whether its
  status is Disconnected or Failed) makes no request in any of the four methods and
  gets the error result of the method.
\<close>

theorem no_handle_fails_fast:
  assumes "client self = None"
  shows "analyze_image E self img tr
         = (Inr (error_dict (lit ''Not connected to MCP server. Please connect first.'')), self, tr)
     \<and> get_orientation E self img tr
         = (Inr (CROSS_MARK @ lit '' Not connected to MCP server''), self, tr)
     \<and> analyze_colors E self img tr
         = (Inr (CROSS_MARK @ lit '' Not connected to MCP server''), self, tr)
     \<and> extract_text_info E self img tr
         = (Inr (error_dict (lit ''Not connected to MCP server'')), self, tr)"
  using assms
  by (simp add: analyze_image_def get_orientation_def analyze_colors_def extract_text_info_def)

text \<open>The same on a client whose only \<^verbatim>\<open>connect\<close> failed.\<close>

theorem no_handle_fails_fast_witness:
  "client (fst (connected_once unreachable)) = None
   \<and> connection_status (fst (connected_once unreachable)) = Failed
   \<and> analyze_image unreachable (fst (connected_once unreachable)) (Some red_rectangle)
        (snd (connected_once unreachable))
      = (Inr (error_dict (lit ''Not connected to MCP server. Please connect first.'')),
         fst (connected_once unreachable), [Handshake default_url])
   \<and> get_orientation unreachable (fst (connected_once unreachable)) (Some red_rectangle)
        (snd (connected_once unreachable))
      = (Inr (CROSS_MARK @ lit '' Not connected to MCP server''),
         fst (connected_once unreachable), [Handshake default_url])
   \<and> analyze_colors unreachable (fst (connected_once unreachable)) (Some red_rectangle)
        (snd (connected_once unreachable))
      = (Inr (CROSS_MARK @ lit '' Not connected to MCP server''),
         fst (connected_once unreachable), [Handshake default_url])
   \<and> extract_text_info unreachable (fst (connected_once unreachable)) (Some red_rectangle)
        (snd (connected_once unreachable))
      = (Inr (error_dict (lit ''Not connected to MCP server'')),
         fst (connected_once unreachable), [Handshake default_url])"
proof -
  have c: "client (fst (connected_once unreachable)) = None"
    by (simp add: connected_once_unreachable)
  from no_handle_fails_fast [OF c, of unreachable "Some red_rectangle"
      "snd (connected_once unreachable)"]
  show ?thesis
    by (simp add: connected_once_unreachable)
qed

text \<open>
  C1, as the claim states it, fails. After a \<^verbatim>\<open>connect\<close> that succeeds and a second one
  that fails, the status is Failed and the handle of the first is still there:
  \<^verbatim>\<open>analyze_image\<close> sends a request and returns the answer.
\<close>

theorem stale_handle_counterexample:
  "reachable refusing_later (connected_twice refusing_later)
   \<and> connection_status (fst (connected_twice refusing_later)) = Failed
   \<and> connection_status (fst (connected_twice refusing_later)) \<noteq> Connected
   \<and> analyze_image refusing_later (fst (connected_twice refusing_later)) (Some red_rectangle)
        (snd (connected_twice refusing_later))
      = (Inr (PDict [(lit ''width'', PInt 400), (lit ''height'', PInt 300)]),
         fst (connected_twice refusing_later),
         snd (connected_twice refusing_later)
           @ [Predict 7 red_rectangle (lit ''/analyze_image'')])"
proof -
  have p: "predict refusing_later c red_rectangle api tr
             = Inr (PDict [(lit ''width'', PInt 400), (lit ''height'', PInt 300)])" for c api tr
    by (simp add: refusing_later_def red_rectangle_def)
  from reachable_connected_twice [of refusing_later] show ?thesis
    by (simp add: connected_twice_refusing_later status_distinct analyze_image_def p
          normalize_def)
qed

text \<open>
  C5. When the constructor of the remote client raises an exception of class
  \<^verbatim>\<open>Exception\<close>, \<^verbatim>\<open>connect\<close> returns normally: the status becomes Failed, which is not
  Connected, and the message holds the endpoint and the word \<^verbatim>\<open>Failed\<close>, with
  \<^verbatim>\<open>error\<close> as the kind.
\<close>

theorem failed_handshake_is_reported:
  assumes "Client E (space_url self) tr = Inl (Exception m)"
  shows "connect E self tr
         = (Inr (CROSS_MARK @ lit '' Failed to connect to '' @ space_url self @ lit '': '' @ m,
                 lit ''error''),
            self\<lparr>connection_status := Failed\<rparr>,
            tr @ [Handshake (space_url self)])
     \<and> connection_status (fst (snd (connect E self tr))) = Failed
     \<and> connection_status (fst (snd (connect E self tr))) \<noteq> Connected
     \<and> sublist (space_url self)
          (CROSS_MARK @ lit '' Failed to connect to '' @ space_url self @ lit '': '' @ m)
     \<and> sublist (lit ''Failed'')
          (CROSS_MARK @ lit '' Failed to connect to '' @ space_url self @ lit '': '' @ m)"
proof -
  have u: "sublist (space_url self)
          (CROSS_MARK @ lit '' Failed to connect to '' @ space_url self @ lit '': '' @ m)"
    unfolding sublist_def
    by (intro exI [of _ "CROSS_MARK @ lit '' Failed to connect to ''"] exI [of _ "lit '': '' @ m"])
       simp
  have "CROSS_MARK @ lit '' Failed to connect to '' @ space_url self @ lit '': '' @ m
          = (CROSS_MARK @ lit '' '') @ lit ''Failed''
              @ (lit '' to connect to '' @ space_url self @ lit '': '' @ m)"
    by (simp add: lit_def)
  then have f: "sublist (lit ''Failed'')
          (CROSS_MARK @ lit '' Failed to connect to '' @ space_url self @ lit '': '' @ m)"
    unfolding sublist_def by blast
  show ?thesis
    using assms u f by (simp add: connect_def status_distinct)
qed

text \<open>The same on a service that cannot be reached.\<close>

theorem failed_handshake_is_reported_witness:
  "Client unreachable (space_url (init default_url)) []
     = Inl (Exception (lit ''Name or service not known''))
   \<and> connect unreachable (init default_url) []
     = (Inr (CROSS_MARK
              @ lit '' Failed to connect to https://chris4k-mcp-images.hf.space: Name or service not known'',
             lit ''error''),
        \<lparr>space_url = default_url, client = None, connection_status = Failed\<rparr>,
        [Handshake default_url])"
proof -
  have c: "Client unreachable (space_url (init default_url)) []
             = Inl (Exception (lit ''Name or service not known''))"
    by (simp add: unreachable_def)
  have i: "init default_url
             = \<lparr>space_url = default_url, client = None, connection_status = Disconnected\<rparr>"
    by (simp add: init_def rstrip_default_url)
  have m: "lit '' Failed to connect to '' @ default_url @ lit '': ''
             @ lit ''Name or service not known''
           = lit '' Failed to connect to https://chris4k-mcp-images.hf.space: Name or service not known''"
    by (simp add: default_url_def lit_def)
  from failed_handshake_is_reported [OF c] c show ?thesis
    by (simp add: i m)
qed

lemma mentions_not_connected:
  "sublist (lit ''Not connected'') (lit ''Not connected to MCP server. Please connect first.'')"
  "sublist (lit ''Not connected'') (CROSS_MARK @ lit '' Not connected to MCP server'')"
  "sublist (lit ''Not connected'') (lit ''Not connected to MCP server'')"
proof -
  have "lit ''Not connected to MCP server. Please connect first.''
          = [] @ lit ''Not connected'' @ lit '' to MCP server. Please connect first.''"
    by (simp add: lit_def)
  then show "sublist (lit ''Not connected'')
               (lit ''Not connected to MCP server. Please connect first.'')"
    unfolding sublist_def by blast
  have "CROSS_MARK @ lit '' Not connected to MCP server''
          = (CROSS_MARK @ lit '' '') @ lit ''Not connected'' @ lit '' to MCP server''"
    by (simp add: lit_def)
  then show "sublist (lit ''Not connected'') (CROSS_MARK @ lit '' Not connected to MCP server'')"
    unfolding sublist_def by blast
  have "lit ''Not connected to MCP server'' = [] @ lit ''Not connected'' @ lit '' to MCP server''"
    by (simp add: lit_def)
  then show "sublist (lit ''Not connected'') (lit ''Not connected to MCP server'')"
    unfolding sublist_def by blast
qed

text \<open>
  C7. A client just constructed holds no handle and has the status Disconnected; each
  of the four methods, on any image, returns its error result, whose message says
  \<^verbatim>\<open>Not connected\<close>, and the list of requests is as it was.
\<close>

theorem fresh_client_is_not_connected:
  "client (init url) = None
   \<and> connection_status (init url) = Disconnected
   \<and> analyze_image E (init url) img tr
       = (Inr (error_dict (lit ''Not connected to MCP server. Please connect first.'')),
          init url, tr)
   \<and> get_orientation E (init url) img tr
       = (Inr (CROSS_MARK @ lit '' Not connected to MCP server''), init url, tr)
   \<and> analyze_colors E (init url) img tr
       = (Inr (CROSS_MARK @ lit '' Not connected to MCP server''), init url, tr)
   \<and> extract_text_info E (init url) img tr
       = (Inr (error_dict (lit ''Not connected to MCP server'')), init url, tr)
   \<and> sublist (lit ''Not connected'') (lit ''Not connected to MCP server. Please connect first.'')
   \<and> sublist (lit ''Not connected'') (CROSS_MARK @ lit '' Not connected to MCP server'')
   \<and> sublist (lit ''Not connected'') (lit ''Not connected to MCP server'')"
  by (simp add: init_def analyze_image_def get_orientation_def analyze_colors_def
        extract_text_info_def mentions_not_connected)

text \<open>The same on the default endpoint with the red rectangle.\<close>

theorem fresh_client_is_not_connected_witness:
  "analyze_image unreachable (init default_url) (Some red_rectangle) []
       = (Inr (error_dict (lit ''Not connected to MCP server. Please connect first.'')),
          init default_url, [])
   \<and> get_orientation unreachable (init default_url) (Some red_rectangle) []
       = (Inr (CROSS_MARK @ lit '' Not connected to MCP server''), init default_url, [])
   \<and> analyze_colors unreachable (init default_url) (Some red_rectangle) []
       = (Inr (CROSS_MARK @ lit '' Not connected to MCP server''), init default_url, [])
   \<and> extract_text_info unreachable (init default_url) (Some red_rectangle) []
       = (Inr (error_dict (lit ''Not connected to MCP server'')), init default_url, [])"
  using fresh_client_is_not_connected [of default_url unreachable "Some red_rectangle" "[]"]
  by simp

section \<open>A failed call leaves the connection standing\<close>

lemma connected_once_dropping_calls:
  "connected_once dropping_calls =
     (\<lparr>space_url = default_url, client = Some 7, connection_status = Connected\<rparr>,
      [Handshake default_url])"
  by (simp add: connected_once_def connect_def dropping_calls_def init_def rstrip_default_url)

text \<open>
  C9 on a service that accepts the handshake and drops every call: the method returns
  its error result and the client is still connected, with its handle.
\<close>

theorem analysis_leaves_client_unchanged_witness:
  "fst (perform dropping_calls AnalyzeImage (fst (connected_once dropping_calls))
          (Some red_rectangle) (snd (connected_once dropping_calls)))
     = Inr (error_dict (lit ''Analysis failed: Connection reset by peer''))
   \<and> fst (snd (perform dropping_calls AnalyzeImage (fst (connected_once dropping_calls))
          (Some red_rectangle) (snd (connected_once dropping_calls))))
     = \<lparr>space_url = default_url, client = Some 7, connection_status = Connected\<rparr>"
proof -
  have p: "predict dropping_calls c im api tr = Inl (Exception (lit ''Connection reset by peer''))"
    for c im api tr
    by (simp add: dropping_calls_def)
  have f: "fst (perform dropping_calls AnalyzeImage (fst (connected_once dropping_calls))
          (Some red_rectangle) (snd (connected_once dropping_calls)))
     = Inr (error_dict (lit ''Analysis failed: Connection reset by peer''))"
    by (simp add: perform_def analyze_image_def connected_once_dropping_calls p lit_append)
  from analysis_leaves_client_unchanged [of dropping_calls AnalyzeImage
      "fst (connected_once dropping_calls)" "Some red_rectangle"
      "snd (connected_once dropping_calls)"] f
  show ?thesis
    by (simp add: connected_once_dropping_calls)
qed

end
